theory Spec2Isabelle
  imports Main "HOL-Library.Word" "HOL-Library.Log_Nat"
begin

section \<open>Strings and numbers of the host language\<close>

text \<open>
  A string of the host language is a sequence of 16-bit code units. The path parameter
  \<open>id\<close> arrives percent-decoded, so every such sequence can occur. Literals of the
  source are ASCII and are written with \<open>js\<close>.
\<close>

type_synonym code_unit = "16 word"
type_synonym jsstring = "code_unit list"

definition js :: "string \<Rightarrow> jsstring" where
  "js s = map of_char s"

text \<open>
  \<open>parseInt(string, 10)\<close> is a built-in of the language. It is modelled step by step
  as the language standard defines it: leading white space and line terminators are
  trimmed, one sign is read, the longest prefix of decimal digits is taken, and
  \<open>NaN\<close> is returned when that prefix is empty. Nothing after the digits is looked at.
\<close>

definition isWhiteSpace :: "code_unit \<Rightarrow> bool" where
  "isWhiteSpace c =
     (c \<in> set [0x0009, 0x000A, 0x000B, 0x000C, 0x000D, 0x0020, 0x00A0, 0x1680,
                0x2028, 0x2029, 0x202F, 0x205F, 0x3000, 0xFEFF]
      \<or> (0x2000 \<le> c \<and> c \<le> 0x200A))"

definition isDigit :: "code_unit \<Rightarrow> bool" where
  "isDigit c = (0x30 \<le> c \<and> c \<le> 0x39)"

definition mathInt :: "jsstring \<Rightarrow> int" where
  "mathInt Z = foldl (\<lambda>acc c. 10 * acc + (uint c - 0x30)) 0 Z"

text \<open>
  A Number is a double. The Numbers of this program are \<open>NaN\<close>, the two infinities and
  doubles with an integral value; \<open>Num n\<close> is the double whose value is the integer
  \<open>n\<close>. Negative zero is \<open>Num 0\<close>: no test of the program tells it from zero.

  An integer becomes a Number by rounding to the nearest double, ties to the even
  significand: \<open>round53\<close> keeps the 53 leading bits of a natural number. Every integer
  up to \<open>2 ^ 53\<close> is a double; \<open>2 ^ 53 + 1\<close> is not. A value that rounds to
  \<open>2 ^ 1024\<close> or more is infinite.
\<close>

datatype number = NaN | Num int | Infinity | NegInfinity

definition round53 :: "nat \<Rightarrow> nat" where
  "round53 a =
     (if a < 2 ^ 53 then a
      else
        let e = floorlog 2 a - 53;
            q = a div 2 ^ e;
            r = a mod 2 ^ e
        in (if 2 ^ e < 2 * r \<or> (2 * r = 2 ^ e \<and> odd q) then q + 1 else q) * 2 ^ e)"

definition round_double :: "int \<Rightarrow> int" where
  "round_double n = (if n < 0 then - int (round53 (nat (- n))) else int (round53 (nat n)))"

definition to_number :: "int \<Rightarrow> number" where
  "to_number n =
     (let v = round_double n in
      if 2 ^ 1024 \<le> v then Infinity
      else if v \<le> - (2 ^ 1024) then NegInfinity
      else Num v)"

text \<open>
  \<open>parseInt\<close> returns the Number for the signed value of the digit run. The engine
  reads a long decimal run exactly and rounds once.
\<close>

definition parseInt10 :: "jsstring \<Rightarrow> number" where
  "parseInt10 inputString =
     (let S = dropWhile isWhiteSpace inputString;
          sign = (case S of [] \<Rightarrow> 1 | c # _ \<Rightarrow> if c = 0x2D then - 1 else 1);
          S' = (case S of [] \<Rightarrow> S | c # cs \<Rightarrow> if c = 0x2B \<or> c = 0x2D then cs else S);
          Z = takeWhile isDigit S'
      in if Z = [] then NaN else to_number (sign * mathInt Z))"

fun isNaN :: "number \<Rightarrow> bool" where
  "isNaN NaN = True"
| "isNaN (Num _) = False"
| "isNaN Infinity = False"
| "isNaN NegInfinity = False"

text \<open>The comparison \<open>x <= 0\<close>; it is false on \<open>NaN\<close>.\<close>

fun le_zero :: "number \<Rightarrow> bool" where
  "le_zero NaN = False"
| "le_zero (Num n) = (n \<le> 0)"
| "le_zero Infinity = False"
| "le_zero NegInfinity = True"

text \<open>
  A title goes through the database driver into a \<open>TEXT\<close> column and comes back from
  it as a string again. The column keeps UTF-8, so what comes back need not be what went
  in: a surrogate code unit without its pair, for one, comes back as U+FFFD. Nothing in
  \<open>index.ts\<close> fixes this conversion. It is a parameter \<open>col\<close> of the model: \<open>col t\<close> is
  the string that is read from the column after \<open>t\<close> was bound to it.
\<close>

type_synonym text_column = "jsstring \<Rightarrow> jsstring"


section \<open>Replies\<close>

text \<open>
  The JSON object of a todo as the response schema \<open>TodoSchema\<close> serialises it: an
  integer \<open>id\<close>, a string \<open>title\<close> and a boolean \<open>completed\<close>.
\<close>

record todo =
  todo_id :: int
  todo_title :: jsstring
  todo_completed :: bool

text \<open>
  What a handler can throw: a \<open>TypeError\<close> of the language, an error of the database
  driver, or an HTTP error that carries a status code and a message.
\<close>

datatype thrown = TypeError | SQLiteError | HttpError nat string

text \<open>
  The body of a reply: a todo, the array of all todos, the object \<open>{error: msg}\<close>
  that the hook sends, the value \<open>null\<close>, no body at all, or the error document that
  the server's default error handler writes for a thrown value, or the document of the
  router for a request that matches no route.
\<close>

datatype payload =
    TodoObject todo
  | TodoArray "todo list"
  | ErrorObject string
  | NullValue
  | Empty
  | ErrorDocument thrown
  | RouteNotFound

record reply =
  statusCode :: nat
  body :: payload

text \<open>
  The default error handler answers a thrown value with its status code when it
  carries one of the error range, and with 500 otherwise.
\<close>

fun errorHandler :: "thrown \<Rightarrow> reply" where
  "errorHandler TypeError = \<lparr>statusCode = 500, body = ErrorDocument TypeError\<rparr>"
| "errorHandler SQLiteError = \<lparr>statusCode = 500, body = ErrorDocument SQLiteError\<rparr>"
| "errorHandler (HttpError c msg) =
     \<lparr>statusCode = (if 400 \<le> c then c else 500), body = ErrorDocument (HttpError c msg)\<rparr>"

text \<open>
  The handlers build their errors with \<open>fastify.httpErrors\<close>. The instance is made by
  \<open>Fastify({logger: true})\<close> and two \<open>register\<close> calls, for the OpenAPI document and
  for its user interface (lines 22 to 50). Nothing in the file decorates the instance
  with \<open>httpErrors\<close>, and the server core has no such property, so the expression
  \<open>fastify.httpErrors\<close> is \<open>undefined\<close> and reading \<open>notFound\<close> or
  \<open>internalServerError\<close> from it throws a \<open>TypeError\<close> before any HTTP error is made.
\<close>

definition httpErrors :: "(nat \<Rightarrow> string \<Rightarrow> thrown) option" where
  "httpErrors = None"

definition notFound :: "string \<Rightarrow> thrown" where
  "notFound msg = (case httpErrors of None \<Rightarrow> TypeError | Some mk \<Rightarrow> mk 404 msg)"

definition internalServerError :: "string \<Rightarrow> thrown" where
  "internalServerError msg = (case httpErrors of None \<Rightarrow> TypeError | Some mk \<Rightarrow> mk 500 msg)"


section \<open>The hook \<open>parseIdHook\<close>\<close>

text \<open>
  Lines 100 to 110. The hook either sends the reply 400 (\<open>Inl\<close>), and then the route
  handler does not run, or stores the parsed number in \<open>request.params.id\<close>
  (\<open>Inr\<close>).
\<close>

definition parseIdHook :: "jsstring \<Rightarrow> reply + number" where
  "parseIdHook raw =
     (let idn = parseInt10 raw in
      if isNaN idn \<or> le_zero idn
      then Inl \<lparr>statusCode = 400, body = ErrorObject ''Invalid ID''\<rparr>
      else Inr idn)"


section \<open>The table \<open>todos\<close>\<close>

text \<open>
  A row has the columns of the \<open>CREATE TABLE\<close> statement (lines 13 to 19). The column \<open>completed\<close>
  is declared \<open>BOOLEAN\<close>, which the engine stores as an integer. A row id is a signed
  64-bit integer of the engine, not a Number. The database is the list of rows in the
  order of insertion, and the counter that \<open>AUTOINCREMENT\<close> keeps: the largest row id
  the table has ever held.
\<close>

record todo_row =
  id_col :: int
  title_col :: jsstring
  completed_col :: int

record database =
  todos :: "todo_row list"
  sqlite_sequence :: int

text \<open>The table that \<open>CREATE TABLE IF NOT EXISTS\<close> makes in a new database file.\<close>

definition initial_db :: database where
  "initial_db = \<lparr>todos = [], sqlite_sequence = 0\<rparr>"

text \<open>
  The condition \<open>WHERE id = ?\<close> with a Number bound to the parameter: the engine
  compares the row id with the value of the Number, and no row id equals \<open>NaN\<close> or an
  infinity.
\<close>

fun where_id :: "number \<Rightarrow> todo_row \<Rightarrow> bool" where
  "where_id (Num k) r = (id_col r = k)"
| "where_id NaN r = False"
| "where_id Infinity r = False"
| "where_id NegInfinity r = False"

declare where_id.simps [simp del]

text \<open>\<open>SELECT * FROM todos\<close>, read with \<open>all()\<close>.\<close>

definition select_all :: "database \<Rightarrow> todo_row list" where
  "select_all db = todos db"

text \<open>
  \<open>SELECT * FROM todos WHERE id = ?\<close>, read with \<open>get(id)\<close>: the first row of the
  result, or \<open>null\<close>.
\<close>

definition select_by_id :: "database \<Rightarrow> number \<Rightarrow> todo_row option" where
  "select_by_id db k = find (where_id k) (todos db)"

text \<open>\<open>SELECT 1 FROM todos WHERE id = ?\<close>, read with \<open>get(id)\<close>.\<close>

definition select_1_by_id :: "database \<Rightarrow> number \<Rightarrow> int option" where
  "select_1_by_id db k = map_option (\<lambda>_. 1) (find (where_id k) (todos db))"

text \<open>
  The largest row id that the table has ever held, as \<open>AUTOINCREMENT\<close> knows it: the
  largest of the ids in the table and the counter.
\<close>

definition last_rowid :: "database \<Rightarrow> int" where
  "last_rowid db = fold max (map id_col (todos db)) (sqlite_sequence db)"

text \<open>
  \<open>INSERT INTO todos (title, completed) VALUES (?, 0) RETURNING *\<close>, read with
  \<open>get(title)\<close>. The new row gets the id after the largest ever held. When that
  largest id is the last 64-bit integer the statement fails, the driver throws and
  nothing is inserted. Otherwise the result is the new row and the new database.
\<close>

definition insert_returning ::
  "text_column \<Rightarrow> database \<Rightarrow> jsstring \<Rightarrow> thrown + todo_row \<times> database" where
  "insert_returning col db t =
     (if 2 ^ 63 - 1 \<le> last_rowid db then Inl SQLiteError
      else
        let r = \<lparr>id_col = last_rowid db + 1, title_col = col t, completed_col = 0\<rparr>
        in Inr (r, \<lparr>todos = todos db @ [r], sqlite_sequence = id_col r\<rparr>))"

text \<open>
  The handler of \<open>PUT\<close> builds its statement from the clauses \<open>title = ?\<close> and
  \<open>completed = ?\<close>. An assignment is one clause with the value bound to it.
\<close>

datatype assignment = SetTitle jsstring | SetCompleted int

fun assign :: "text_column \<Rightarrow> assignment \<Rightarrow> todo_row \<Rightarrow> todo_row" where
  "assign col (SetTitle t) r = r\<lparr>title_col := col t\<rparr>"
| "assign col (SetCompleted c) r = r\<lparr>completed_col := c\<rparr>"

text \<open>
  \<open>UPDATE todos SET ... WHERE id = ? RETURNING *\<close>, read with \<open>get(...values)\<close>: the
  first updated row or \<open>null\<close>, and the new database.
\<close>

definition update_returning ::
  "text_column \<Rightarrow> database \<Rightarrow> assignment list \<Rightarrow> number \<Rightarrow> todo_row option \<times> database"
  where
  "update_returning col db updates k =
     (let rows' = map (\<lambda>r. if where_id k r then fold (assign col) updates r else r) (todos db)
      in (find (where_id k) rows', db\<lparr>todos := rows'\<rparr>))"

text \<open>
  \<open>DELETE FROM todos WHERE id = ?\<close>, executed with \<open>run(id)\<close>: the number of rows
  it removed (\<open>changes\<close>) and the new database.
\<close>

definition delete_run :: "database \<Rightarrow> number \<Rightarrow> nat \<times> database" where
  "delete_run db k =
     (length (filter (where_id k) (todos db)),
      db\<lparr>todos := filter (\<lambda>r. \<not> where_id k r) (todos db)\<rparr>)"


section \<open>The route handlers\<close>

text \<open>
  A handler's result is a row as the driver returns it: the row id has become a
  Number, the double nearest to it. The reply is written through the response schema of
  the status, \<open>TodoSchema\<close> for 200 and 201, whose boolean \<open>completed\<close> is true for
  every stored value but zero.
\<close>

definition serialize :: "todo_row \<Rightarrow> todo" where
  "serialize r =
     \<lparr>todo_id = round_double (id_col r), todo_title = title_col r,
      todo_completed = (completed_col r \<noteq> 0)\<rparr>"

text \<open>\<open>GET /todos\<close> (lines 125 to 128)\<close>

definition get_todos_handler :: "database \<Rightarrow> reply \<times> database" where
  "get_todos_handler db =
     (\<lparr>statusCode = 200, body = TodoArray (map serialize (select_all db))\<rparr>, db)"

text \<open>\<open>GET /todos/:id\<close>, after the hook (lines 145 to 153)\<close>

definition get_todo_handler :: "database \<Rightarrow> number \<Rightarrow> reply \<times> database" where
  "get_todo_handler db idn =
     (case select_by_id db idn of
        None \<Rightarrow> (errorHandler (notFound ''Todo not found''), db)
      | Some todo \<Rightarrow> (\<lparr>statusCode = 200, body = TodoObject (serialize todo)\<rparr>, db))"

text \<open>
  \<open>POST /todos\<close> (lines 168 to 175). The body has passed \<open>CreateTodoBodySchema\<close>: it is an object with
  a string \<open>title\<close>, and whatever other properties the client sent.
\<close>

datatype json =
    JNull
  | JBool bool
  | JNumber int
  | JString jsstring
  | JArray "json list"
  | JObject "(string \<times> json) list"

record create_body =
  title :: jsstring
  additional :: "(string \<times> json) list"

definition post_todo_handler ::
  "text_column \<Rightarrow> database \<Rightarrow> create_body \<Rightarrow> reply \<times> database" where
  "post_todo_handler col db request_body =
     (case insert_returning col db (title request_body) of
        Inl e \<Rightarrow> (errorHandler e, db)
      | Inr (newTodo, db') \<Rightarrow>
          (\<lparr>statusCode = 201, body = TodoObject (serialize newTodo)\<rparr>, db'))"

text \<open>
  \<open>PUT /todos/:id\<close>, after the hook (lines 196 to 237). The body has passed \<open>UpdateTodoBodySchema\<close>:
  \<open>title\<close> is a string or absent, \<open>completed\<close> is a boolean or absent. The handler
  runs two statements, the existence check and then a select or the update. The
  argument \<open>others\<close> is what other connections to the database file write between
  the two; within the one server process nothing runs between them, and \<open>others\<close> is
  the identity.
\<close>

record update_body =
  title_opt :: "jsstring option"
  completed_opt :: "bool option"

text \<open>
  Lines 207 to 218. The clauses that the handler pushes, with their values: \<open>title = ?\<close> when \<open>title\<close>
  is not \<open>undefined\<close>, then \<open>completed = ?\<close> with \<open>completed ? 1 : 0\<close> when
  \<open>completed\<close> is not \<open>undefined\<close>.
\<close>

definition updates_of :: "update_body \<Rightarrow> assignment list" where
  "updates_of request_body =
     (case title_opt request_body of None \<Rightarrow> [] | Some t \<Rightarrow> [SetTitle t]) @
     (case completed_opt request_body of None \<Rightarrow> []
      | Some c \<Rightarrow> [SetCompleted (if c then 1 else 0)])"

definition put_todo_handler ::
  "text_column \<Rightarrow> (database \<Rightarrow> database) \<Rightarrow> database \<Rightarrow> number \<Rightarrow> update_body \<Rightarrow>
     reply \<times> database" where
  "put_todo_handler col others db idn request_body =
     (if select_1_by_id db idn = None
      then (errorHandler (notFound ''Todo not found''), db)
      else
        let updates = updates_of request_body;
            db1 = others db
        in if updates = []
           then (case select_by_id db1 idn of
                   None \<Rightarrow> (\<lparr>statusCode = 200, body = NullValue\<rparr>, db1)
                 | Some r \<Rightarrow> (\<lparr>statusCode = 200, body = TodoObject (serialize r)\<rparr>, db1))
           else (case update_returning col db1 updates idn of
                   (None, db2) \<Rightarrow>
                     (errorHandler (internalServerError ''Failed to update todo''), db2)
                 | (Some updatedTodo, db2) \<Rightarrow>
                     (\<lparr>statusCode = 200, body = TodoObject (serialize updatedTodo)\<rparr>, db2)))"

text \<open>\<open>DELETE /todos/:id\<close>, after the hook (lines 254 to 262)\<close>

definition delete_todo_handler :: "database \<Rightarrow> number \<Rightarrow> reply \<times> database" where
  "delete_todo_handler db idn =
     (let (changes, db') = delete_run db idn
      in if changes = 0
         then (errorHandler (notFound ''Todo not found''), db')
         else (\<lparr>statusCode = 204, body = Empty\<rparr>, db'))"


section \<open>The routes\<close>

text \<open>
  The three routes with an \<open>:id\<close> parameter run \<open>parseIdHook\<close> as their
  \<open>preHandler\<close>. When the hook has sent a reply the handler is skipped. The router
  matches a path parameter of at most \<open>maxParamLength\<close> code units, which is 100
  unless the options of the instance say otherwise, and line 22 sets none; a request
  with a longer parameter matches no route and is answered 404 by the router, before
  any hook.
\<close>

definition maxParamLength :: nat where
  "maxParamLength = 100"

definition get_todo_route :: "database \<Rightarrow> jsstring \<Rightarrow> reply \<times> database" where
  "get_todo_route db raw =
     (if maxParamLength < length raw then (\<lparr>statusCode = 404, body = RouteNotFound\<rparr>, db)
      else case parseIdHook raw of Inl r \<Rightarrow> (r, db) | Inr idn \<Rightarrow> get_todo_handler db idn)"

definition put_todo_route ::
  "text_column \<Rightarrow> (database \<Rightarrow> database) \<Rightarrow> database \<Rightarrow> jsstring \<Rightarrow> update_body \<Rightarrow>
     reply \<times> database" where
  "put_todo_route col others db raw request_body =
     (if maxParamLength < length raw then (\<lparr>statusCode = 404, body = RouteNotFound\<rparr>, db)
      else case parseIdHook raw of
             Inl r \<Rightarrow> (r, db)
           | Inr idn \<Rightarrow> put_todo_handler col others db idn request_body)"

definition delete_todo_route :: "database \<Rightarrow> jsstring \<Rightarrow> reply \<times> database" where
  "delete_todo_route db raw =
     (if maxParamLength < length raw then (\<lparr>statusCode = 404, body = RouteNotFound\<rparr>, db)
      else case parseIdHook raw of Inl r \<Rightarrow> (r, db) | Inr idn \<Rightarrow> delete_todo_handler db idn)"

text \<open>
  A request that has passed the schemas of its route, and the server's answer to it
  when no other process writes to the database file.
\<close>

datatype request =
    GetTodos
  | GetTodo jsstring
  | PostTodo create_body
  | PutTodo jsstring update_body
  | DeleteTodo jsstring

fun serve :: "text_column \<Rightarrow> database \<Rightarrow> request \<Rightarrow> reply \<times> database" where
  "serve col db GetTodos = get_todos_handler db"
| "serve col db (GetTodo raw) = get_todo_route db raw"
| "serve col db (PostTodo b) = post_todo_handler col db b"
| "serve col db (PutTodo raw b) = put_todo_route col (\<lambda>d. d) db raw b"
| "serve col db (DeleteTodo raw) = delete_todo_route db raw"

text \<open>The states of the table that the server reaches from a new database file.\<close>

inductive reachable :: "text_column \<Rightarrow> database \<Rightarrow> bool" for col where
  reachable_initial: "reachable col initial_db"
| reachable_serve: "reachable col db \<Longrightarrow> reachable col (snd (serve col db req))"


section \<open>Auxiliary definitions for the statements\<close>

text \<open>
  Following the words of the specification, not the code: a string is a base-10 integer
  when it is an optional sign followed by decimal digits and nothing else.
\<close>

definition spec_base10_integer :: "jsstring \<Rightarrow> bool" where
  "spec_base10_integer s =
     (case s of
        [] \<Rightarrow> False
      | c # cs \<Rightarrow>
          if c = 0x2B \<or> c = 0x2D then cs \<noteq> [] \<and> list_all isDigit cs
          else list_all isDigit s)"

text \<open>The invariant of the column \<open>completed\<close>.\<close>

definition completed_is_0_or_1 :: "database \<Rightarrow> bool" where
  "completed_is_0_or_1 db =
     list_all (\<lambda>r. completed_col r = 0 \<or> completed_col r = 1) (todos db)"

text \<open>
  The titles of the examples are ASCII, which the column keeps as they are. Tables for
  the examples: one todo; two todos; a table whose largest id is \<open>2 ^ 53\<close>,
  so that the next id is not a Number; and a table that holds the last 64-bit id.
\<close>

definition one_todo :: database where
  "one_todo =
     \<lparr>todos = [\<lparr>id_col = 1, title_col = js ''Buy milk'', completed_col = 0\<rparr>],
      sqlite_sequence = 1\<rparr>"

definition two_todos :: database where
  "two_todos =
     \<lparr>todos = [\<lparr>id_col = 1, title_col = js ''Buy milk'', completed_col = 0\<rparr>,
               \<lparr>id_col = 2, title_col = js ''Walk'', completed_col = 1\<rparr>],
      sqlite_sequence = 2\<rparr>"

definition big_todo :: database where
  "big_todo =
     \<lparr>todos = [\<lparr>id_col = 9007199254740992, title_col = js ''Big'', completed_col = 0\<rparr>],
      sqlite_sequence = 9007199254740992\<rparr>"

definition full_todo :: database where
  "full_todo =
     \<lparr>todos = [\<lparr>id_col = 9223372036854775807, title_col = js ''Last'', completed_col = 0\<rparr>],
      sqlite_sequence = 9223372036854775807\<rparr>"


section \<open>Facts about Numbers\<close>

lemma round53_small: "a \<le> 2 ^ 53 \<Longrightarrow> round53 a = a"
proof (cases "a < 2 ^ 53")
  case True
  then show ?thesis by (simp add: round53_def)
next
  case False
  assume "a \<le> 2 ^ 53"
  with False have a: "a = 2 ^ 53" by simp
  show ?thesis
    unfolding a by (simp add: round53_def Let_def compute_floorlog)
qed

lemma round53_pos: "0 < a \<Longrightarrow> 0 < round53 a"
proof (cases "a < 2 ^ 53")
  case True
  assume "0 < a"
  with True show ?thesis by (simp add: round53_def)
next
  case False
  assume "0 < a"
  define e where "e = floorlog 2 a - 53"
  from floorlog_bounds [of a 2] \<open>0 < a\<close> have "2 ^ (floorlog 2 a - 1) \<le> a"
    by simp
  moreover have "(2::nat) ^ e \<le> 2 ^ (floorlog 2 a - 1)"
    unfolding e_def by (rule power_increasing) simp_all
  ultimately have "2 ^ e \<le> a" by (rule order_trans [rotated])
  then have "0 < a div 2 ^ e"
    by (simp add: div_greater_zero_iff)
  then show ?thesis
    using False by (simp add: round53_def Let_def e_def [symmetric])
qed

lemma round_double_small: "\<bar>n\<bar> \<le> 2 ^ 53 \<Longrightarrow> round_double n = n"
proof -
  assume "\<bar>n\<bar> \<le> 2 ^ 53"
  then have "nat \<bar>n\<bar> \<le> 2 ^ 53"
    by (simp add: nat_le_iff)
  then have "round53 (nat \<bar>n\<bar>) = nat \<bar>n\<bar>" by (rule round53_small)
  then show ?thesis
    by (cases "n < 0") (simp_all add: round_double_def abs_if)
qed

lemma round_double_pos: "0 < n \<Longrightarrow> 0 < round_double n"
  using round53_pos [of "nat n"] by (simp add: round_double_def)

lemma round_double_nonpos: "n \<le> 0 \<Longrightarrow> round_double n \<le> 0"
  by (cases "n = 0") (simp_all add: round_double_def round53_def)

lemma to_number_small: "\<bar>n\<bar> \<le> 2 ^ 53 \<Longrightarrow> to_number n = Num n"
proof -
  assume a: "\<bar>n\<bar> \<le> 2 ^ 53"
  have "(2::int) ^ 53 < 2 ^ 1024" by simp
  with a have "n < 2 ^ 1024" "- (2 ^ 1024) < n" by linarith+
  with a show ?thesis
    by (simp add: to_number_def round_double_small Let_def)
qed

lemma to_number_pos: "0 < n \<Longrightarrow> \<not> isNaN (to_number n) \<and> \<not> le_zero (to_number n)"
  using round_double_pos [of n] by (simp add: to_number_def Let_def)

lemma to_number_nonpos: "n \<le> 0 \<Longrightarrow> le_zero (to_number n)"
  using round_double_nonpos [of n] by (simp add: to_number_def Let_def)

text \<open>Rounding a double again changes nothing, so a Number is its own rounding.\<close>

lemma floorlog_eqI:
  assumes "2 ^ (w - 1) \<le> x" "x < 2 ^ w" "0 < w"
  shows "floorlog 2 x = w"
proof -
  have "w \<le> floorlog 2 x" using assms(1) by (intro floorlog_geI) simp_all
  moreover have "floorlog 2 x \<le> w" using assms(2) by (intro floorlog_leI) simp_all
  ultimately show ?thesis by simp
qed

lemma round53_exact_multiple:
  assumes q: "2 ^ 52 \<le> q" "q < 2 ^ 53" and e: "0 < e"
  shows "round53 (q * 2 ^ e) = q * 2 ^ e"
proof -
  let ?v = "q * 2 ^ e"
  have lo: "(2::nat) ^ (53 + e - 1) \<le> ?v"
  proof -
    have "53 + e - 1 = 52 + e" by simp
    then have "(2::nat) ^ (53 + e - 1) = 2 ^ 52 * 2 ^ e" by (simp only: power_add)
    also have "\<dots> \<le> q * 2 ^ e" using q(1) by (intro mult_right_mono) simp_all
    finally show ?thesis .
  qed
  have hi: "?v < 2 ^ (53 + e)"
  proof -
    have "q * 2 ^ e < 2 ^ 53 * 2 ^ e" using q(2) by (intro mult_strict_right_mono) simp_all
    then show ?thesis by (simp only: power_add)
  qed
  have fl: "floorlog 2 ?v = 53 + e"
    using lo hi by (intro floorlog_eqI) simp_all
  have big: "\<not> ?v < 2 ^ 53"
  proof -
    have "(2::nat) ^ 53 \<le> 2 ^ (53 + e - 1)" using e by (intro power_increasing) simp_all
    with lo show ?thesis by simp
  qed
  show ?thesis
    using big by (simp add: round53_def Let_def fl)
qed

lemma round53_form:
  assumes "\<not> a < 2 ^ 53"
  shows "\<exists>q e. 2 ^ 52 \<le> q \<and> q \<le> 2 ^ 53 \<and> 0 < e \<and> round53 a = q * 2 ^ e"
proof -
  define L where "L = floorlog 2 a"
  define e where "e = L - 53"
  define q where "q = a div 2 ^ e"
  from assms have pos: "0 < a" by (cases "a = 0") simp_all
  from floorlog_bounds [of a 2] pos have b: "2 ^ (L - 1) \<le> a" "a < 2 ^ L"
    by (simp_all add: L_def)
  from assms have "(2::nat) ^ 53 \<le> a" by (simp only: not_less)
  then have "(2::nat) ^ 53 < 2 ^ L" using b(2) by (rule le_less_trans)
  then have L: "53 < L" by (rule power_less_imp_less_exp [rotated]) simp
  then have e: "0 < e" and Le: "L = 53 + e" by (simp_all add: e_def)
  have "L - 1 = 52 + e" using Le by simp
  with b(1) have "(2::nat) ^ 52 * 2 ^ e \<le> a" by (simp only: power_add)
  then have q1: "2 ^ 52 \<le> q"
    unfolding q_def by (simp add: less_eq_div_iff_mult_less_eq)
  have "a < 2 ^ 53 * 2 ^ e" using b(2) by (simp only: Le power_add)
  then have q2: "q < 2 ^ 53"
    unfolding q_def by (simp add: less_mult_imp_div_less)
  have "round53 a = (if 2 ^ e < 2 * (a mod 2 ^ e) \<or> (2 * (a mod 2 ^ e) = 2 ^ e \<and> odd q)
      then q + 1 else q) * 2 ^ e"
    using assms by (simp add: round53_def Let_def L_def e_def q_def)
  with q1 q2 e show ?thesis
    by (intro exI [of _ "if 2 ^ e < 2 * (a mod 2 ^ e) \<or> (2 * (a mod 2 ^ e) = 2 ^ e \<and> odd q)
      then q + 1 else q"] exI [of _ e]) auto
qed

lemma round53_idem: "round53 (round53 a) = round53 a"
proof (cases "a < 2 ^ 53")
  case True
  then show ?thesis by (simp add: round53_def)
next
  case False
  from round53_form [OF False] obtain q e where
    q: "2 ^ 52 \<le> q" "q \<le> 2 ^ 53" and e: "0 < e" and r: "round53 a = q * 2 ^ e"
    by blast
  show ?thesis
  proof (cases "q = 2 ^ 53")
    case True
    have "round53 a = 2 ^ 52 * 2 ^ (Suc e)" using r True by simp
    moreover have "round53 (2 ^ 52 * 2 ^ (Suc e)) = 2 ^ 52 * 2 ^ (Suc e)"
      by (rule round53_exact_multiple) simp_all
    ultimately show ?thesis by simp
  next
    case False
    with q have "q < 2 ^ 53" by simp
    with q(1) e have "round53 (q * 2 ^ e) = q * 2 ^ e"
      by (intro round53_exact_multiple)
    with r show ?thesis by simp
  qed
qed

lemma round_double_idem: "round_double (round_double n) = round_double n"
proof (cases "n < 0")
  case True
  then have "0 < round53 (nat (- n))" by (intro round53_pos) simp
  then show ?thesis
    using True by (simp add: round_double_def round53_idem)
next
  case False
  then show ?thesis by (simp add: round_double_def round53_idem)
qed

lemma to_number_Num: "to_number v = Num k \<Longrightarrow> round_double k = k"
  by (auto simp: to_number_def Let_def round_double_idem split: if_splits)


section \<open>Facts about the storage statements\<close>

lemma fold_max_ge_init: "(a::int) \<le> fold max xs a"
  by (induction xs arbitrary: a) (auto intro: order_trans [OF max.cobounded2])

lemma fold_max_ge_mem: "x \<in> set xs \<Longrightarrow> (x::int) \<le> fold max xs a"
proof (induction xs arbitrary: a)
  case Nil
  then show ?case by simp
next
  case (Cons y ys)
  show ?case
  proof (cases "x = y")
    case True
    have "y \<le> max y a" by simp
    also have "\<dots> \<le> fold max ys (max y a)" by (rule fold_max_ge_init)
    finally show ?thesis using True by simp
  next
    case False
    with Cons show ?thesis by simp
  qed
qed

lemma last_rowid_ge: "r \<in> set (todos db) \<Longrightarrow> id_col r \<le> last_rowid db"
  using fold_max_ge_mem [of "id_col r" "map id_col (todos db)" "sqlite_sequence db"]
  by (simp add: last_rowid_def)

lemma later_rowid_not_found:
  "last_rowid db < k \<Longrightarrow> find (where_id (Num k)) (todos db) = None"
proof -
  assume k: "last_rowid db < k"
  have "\<not> where_id (Num k) r" if "r \<in> set (todos db)" for r
    using last_rowid_ge [OF that] k by (simp add: where_id.simps)
  then show ?thesis by (auto simp: find_None_iff)
qed

lemma find_snoc:
  "find P (xs @ [y]) =
     (case find P xs of None \<Rightarrow> (if P y then Some y else None) | Some x \<Rightarrow> Some x)"
  by (induction xs) auto

lemma find_where_id:
  "find (where_id (Num k)) rows = Some r \<Longrightarrow> id_col r = k \<and> r \<in> set rows"
  by (induction rows) (auto simp: where_id.simps split: if_splits)

lemma fold_assign_id: "id_col (fold (assign col) updates r) = id_col r"
proof (induction updates arbitrary: r)
  case Nil
  show ?case by simp
next
  case (Cons u us)
  show ?case by (cases u) (simp_all add: Cons.IH)
qed

lemma where_id_fold_assign: "where_id idn (fold (assign col) updates r) = where_id idn r"
  by (cases idn) (simp_all add: where_id.simps fold_assign_id)

lemma find_update:
  "find (where_id idn) (map (\<lambda>r. if where_id idn r then fold (assign col) updates r else r) rows) =
     map_option (fold (assign col) updates) (find (where_id idn) rows)"
  by (induction rows) (auto simp: where_id_fold_assign)

lemma filter_update_other:
  "filter (\<lambda>r. \<not> where_id idn r)
     (map (\<lambda>r. if where_id idn r then fold (assign col) updates r else r) rows) =
   filter (\<lambda>r. \<not> where_id idn r) rows"
  by (induction rows) (auto simp: where_id_fold_assign)

lemma fold_assign_updates_of_completed:
  "completed_col r = 0 \<or> completed_col r = 1 \<Longrightarrow>
   completed_col (fold (assign col) (updates_of b) r) = 0 \<or>
   completed_col (fold (assign col) (updates_of b) r) = 1"
  by (cases "title_opt b"; cases "completed_opt b") (auto simp: updates_of_def)


section \<open>Facts about the handlers\<close>

lemma post_todo_handler_eq:
  "last_rowid db < 2 ^ 63 - 1 \<Longrightarrow>
   post_todo_handler col db b =
     (\<lparr>statusCode = 201,
       body = TodoObject
         \<lparr>todo_id = round_double (last_rowid db + 1), todo_title = col (title b),
          todo_completed = False\<rparr>\<rparr>,
      \<lparr>todos = todos db @
         [\<lparr>id_col = last_rowid db + 1, title_col = col (title b), completed_col = 0\<rparr>],
       sqlite_sequence = last_rowid db + 1\<rparr>)"
  by (simp add: post_todo_handler_def insert_returning_def serialize_def Let_def)

lemma post_todo_handler_full:
  "2 ^ 63 - 1 \<le> last_rowid db \<Longrightarrow>
   post_todo_handler col db b = (\<lparr>statusCode = 500, body = ErrorDocument SQLiteError\<rparr>, db)"
  by (simp add: post_todo_handler_def insert_returning_def)

lemma get_todo_handler_eq:
  "get_todo_handler db idn =
     (case find (where_id idn) (todos db) of
        None \<Rightarrow> (\<lparr>statusCode = 500, body = ErrorDocument TypeError\<rparr>, db)
      | Some r \<Rightarrow> (\<lparr>statusCode = 200, body = TodoObject (serialize r)\<rparr>, db))"
  by (simp add: get_todo_handler_def select_by_id_def notFound_def httpErrors_def
      split: option.splits)

lemma put_todo_handler_missing:
  "find (where_id idn) (todos db) = None \<Longrightarrow>
   put_todo_handler col others db idn b =
     (\<lparr>statusCode = 500, body = ErrorDocument TypeError\<rparr>, db)"
  by (simp add: put_todo_handler_def select_1_by_id_def notFound_def httpErrors_def)

lemma put_todo_handler_noop:
  "find (where_id idn) (todos db) = Some r \<Longrightarrow> updates_of b = [] \<Longrightarrow>
   put_todo_handler col (\<lambda>d. d) db idn b =
     (\<lparr>statusCode = 200, body = TodoObject (serialize r)\<rparr>, db)"
  by (simp add: put_todo_handler_def select_1_by_id_def select_by_id_def)

lemma put_todo_handler_update:
  "find (where_id idn) (todos db) = Some r \<Longrightarrow> updates_of b \<noteq> [] \<Longrightarrow>
   put_todo_handler col (\<lambda>d. d) db idn b =
     (\<lparr>statusCode = 200, body = TodoObject (serialize (fold (assign col) (updates_of b) r))\<rparr>,
      db\<lparr>todos := map (\<lambda>r. if where_id idn r then fold (assign col) (updates_of b) r else r)
                     (todos db)\<rparr>)"
  by (simp add: put_todo_handler_def select_1_by_id_def update_returning_def find_update Let_def)

lemma todos_put_todo_handler:
  "todos (snd (put_todo_handler col (\<lambda>d. d) db idn b)) =
     map (\<lambda>r. if where_id idn r then fold (assign col) (updates_of b) r else r) (todos db)"
proof (cases "find (where_id idn) (todos db)")
  case None
  then have "map (\<lambda>r. if where_id idn r then fold (assign col) (updates_of b) r else r) (todos db) =
             todos db"
    by (intro map_idI) (auto simp: find_None_iff)
  with None show ?thesis by (simp add: put_todo_handler_missing)
next
  case (Some r)
  show ?thesis
  proof (cases "updates_of b = []")
    case True
    from Some True have "put_todo_handler col (\<lambda>d. d) db idn b =
        (\<lparr>statusCode = 200, body = TodoObject (serialize r)\<rparr>, db)"
      by (rule put_todo_handler_noop)
    moreover have "map (\<lambda>r. if where_id idn r then fold (assign col) (updates_of b) r else r)
        (todos db) = todos db"
      by (intro map_idI) (simp add: True)
    ultimately show ?thesis by simp
  next
    case False
    with Some show ?thesis by (simp add: put_todo_handler_update)
  qed
qed

lemma delete_todo_handler_eq:
  "delete_todo_handler db idn =
     (if find (where_id idn) (todos db) = None
      then \<lparr>statusCode = 500, body = ErrorDocument TypeError\<rparr>
      else \<lparr>statusCode = 204, body = Empty\<rparr>,
      db\<lparr>todos := filter (\<lambda>r. \<not> where_id idn r) (todos db)\<rparr>)"
  by (auto simp: delete_todo_handler_def delete_run_def notFound_def httpErrors_def
      find_None_iff filter_empty_conv)

lemma get_todo_route_todos: "todos (snd (get_todo_route db raw)) = todos db"
  by (simp add: get_todo_route_def get_todo_handler_eq split: sum.splits option.splits)

lemma post_todo_handler_todos:
  "todos (snd (post_todo_handler col db b)) =
     (if 2 ^ 63 - 1 \<le> last_rowid db then todos db
      else todos db @
        [\<lparr>id_col = last_rowid db + 1, title_col = col (title b), completed_col = 0\<rparr>])"
  by (simp add: post_todo_handler_eq post_todo_handler_full)

lemma serve_todos:
  "todos (snd (serve col db req)) =
     (case req of
        GetTodos \<Rightarrow> todos db
      | GetTodo raw \<Rightarrow> todos db
      | PostTodo b \<Rightarrow> todos (snd (post_todo_handler col db b))
      | PutTodo raw b \<Rightarrow>
          (if maxParamLength < length raw then todos db
           else case parseIdHook raw of
             Inl _ \<Rightarrow> todos db
           | Inr idn \<Rightarrow> map (\<lambda>r. if where_id idn r then fold (assign col) (updates_of b) r else r)
                       (todos db))
      | DeleteTodo raw \<Rightarrow>
          (if maxParamLength < length raw then todos db
           else case parseIdHook raw of
             Inl _ \<Rightarrow> todos db
           | Inr idn \<Rightarrow> filter (\<lambda>r. \<not> where_id idn r) (todos db)))"
  by (cases req)
     (simp_all add: get_todos_handler_def get_todo_route_todos
        put_todo_route_def delete_todo_route_def todos_put_todo_handler delete_todo_handler_eq
        split: sum.splits)

lemma serve_preserves_completed:
  assumes "completed_is_0_or_1 db"
  shows "completed_is_0_or_1 (snd (serve col db req))"
  using assms fold_assign_updates_of_completed
  by (auto simp: completed_is_0_or_1_def serve_todos post_todo_handler_todos list_all_iff
      split: request.splits sum.splits)


section \<open>Facts about \<open>parseInt\<close> and the hook\<close>

lemma digit_not_white: "isDigit c \<Longrightarrow> \<not> isWhiteSpace c"
  unfolding isDigit_def isWhiteSpace_def word_le_def by auto

lemma digit_not_sign: "isDigit c \<Longrightarrow> c \<noteq> 0x2B \<and> c \<noteq> 0x2D"
  unfolding isDigit_def by auto

lemma plus_not_white: "\<not> isWhiteSpace 0x2B"
  by (simp add: isWhiteSpace_def)

lemma mathInt_acc_nonneg:
  "0 \<le> a \<Longrightarrow> list_all isDigit Z \<Longrightarrow> 0 \<le> foldl (\<lambda>acc c. 10 * acc + (uint c - 0x30)) a Z"
proof (induction Z arbitrary: a)
  case Nil
  then show ?case by simp
next
  case (Cons c Z)
  from Cons.prems have "0x30 \<le> uint c"
    by (simp add: isDigit_def word_le_def)
  with Cons.prems have "0 \<le> 10 * a + (uint c - 0x30)" by simp
  with Cons show ?case by simp
qed

lemma mathInt_nonneg: "list_all isDigit Z \<Longrightarrow> 0 \<le> mathInt Z"
  by (simp add: mathInt_def mathInt_acc_nonneg)

lemma list_all_takeWhile: "list_all P (takeWhile P xs)"
  by (induction xs) auto

lemma dropWhile_head: "(case dropWhile P xs of [] \<Rightarrow> True | c # _ \<Rightarrow> \<not> P c)"
  by (induction xs) auto

lemma dropWhile_all_append:
  "list_all P ws \<Longrightarrow> (case ys of [] \<Rightarrow> True | c # _ \<Rightarrow> \<not> P c) \<Longrightarrow>
   dropWhile P (ws @ ys) = ys"
  by (induction ws) (auto split: list.splits)

lemma takeWhile_all_append:
  "list_all P ds \<Longrightarrow> (case ys of [] \<Rightarrow> True | c # _ \<Rightarrow> \<not> P c) \<Longrightarrow>
   takeWhile P (ds @ ys) = ds"
  by (induction ds) (auto split: list.splits)

lemma parseIdHook_rejects:
  "parseIdHook raw = Inl r \<Longrightarrow> r = \<lparr>statusCode = 400, body = ErrorObject ''Invalid ID''\<rparr>"
  by (auto simp: parseIdHook_def Let_def split: if_splits)

lemma parseIdHook_of_value:
  "parseInt10 raw = to_number v \<Longrightarrow>
   parseIdHook raw =
     (if 0 < v then Inr (to_number v)
      else Inl \<lparr>statusCode = 400, body = ErrorObject ''Invalid ID''\<rparr>)"
  using to_number_pos [of v] to_number_nonpos [of v]
  by (simp add: parseIdHook_def Let_def)

lemma parseIdHook_of_NaN:
  "parseInt10 raw = NaN \<Longrightarrow>
   parseIdHook raw = Inl \<lparr>statusCode = 400, body = ErrorObject ''Invalid ID''\<rparr>"
  by (simp add: parseIdHook_def Let_def)

lemma parseIdHook_accepts_form:
  assumes raw: "raw = ws @ sg @ ds @ rest"
    and ws: "list_all isWhiteSpace ws"
    and sg: "sg = [] \<or> sg = js ''+''"
    and ds: "ds \<noteq> []" "list_all isDigit ds"
    and rest: "(case rest of [] \<Rightarrow> True | c # _ \<Rightarrow> \<not> isDigit c)"
    and pos: "0 < mathInt ds"
  shows "parseIdHook raw = Inr (to_number (mathInt ds))"
proof -
  from ds obtain d ds' where dd: "ds = d # ds'" "isDigit d"
    by (cases ds) auto
  have tw: "takeWhile isDigit (ds @ rest) = ds"
    using ds rest by (simp add: takeWhile_all_append)
  from sg show ?thesis
  proof
    assume "sg = []"
    then have "dropWhile isWhiteSpace raw = ds @ rest"
      using raw ws dd by (simp add: dropWhile_all_append digit_not_white)
    then have "parseInt10 raw = to_number (mathInt ds)"
      using tw dd digit_not_sign [of d] ds(1)
      by (simp add: parseInt10_def Let_def)
    with pos show ?thesis by (simp add: parseIdHook_of_value)
  next
    assume "sg = js ''+''"
    then have "sg = [0x2B]" by (simp add: js_def)
    then have "dropWhile isWhiteSpace raw = 0x2B # (ds @ rest)"
      using raw ws by (simp add: dropWhile_all_append plus_not_white)
    then have "parseInt10 raw = to_number (mathInt ds)"
      using tw ds(1) by (simp add: parseInt10_def Let_def)
    with pos show ?thesis by (simp add: parseIdHook_of_value)
  qed
qed

lemma parseIdHook_accepted_has_form:
  assumes "parseIdHook raw = Inr idn"
  shows "\<exists>ws sg ds rest. raw = ws @ sg @ ds @ rest \<and> list_all isWhiteSpace ws \<and>
           (sg = [] \<or> sg = js ''+'') \<and> ds \<noteq> [] \<and> list_all isDigit ds \<and>
           (case rest of [] \<Rightarrow> True | c # _ \<Rightarrow> \<not> isDigit c) \<and>
           0 < mathInt ds \<and> idn = to_number (mathInt ds)"
proof -
  define ws where "ws = takeWhile isWhiteSpace raw"
  define S where "S = dropWhile isWhiteSpace raw"
  have raw: "raw = ws @ S" and ws: "list_all isWhiteSpace ws"
    by (simp_all add: ws_def S_def list_all_takeWhile)
  show ?thesis
  proof (cases S)
    case Nil
    then have "parseInt10 raw = NaN"
      by (simp add: parseInt10_def S_def [symmetric])
    with assms show ?thesis by (simp add: parseIdHook_of_NaN)
  next
    case (Cons c cs)
    consider (plus) "c = 0x2B" | (minus) "c = 0x2D" | (none) "c \<noteq> 0x2B" "c \<noteq> 0x2D"
      by blast
    then show ?thesis
    proof cases
      case plus
      define Z where "Z = takeWhile isDigit cs"
      have p: "parseInt10 raw = (if Z = [] then NaN else to_number (mathInt Z))"
        using Cons plus by (simp add: parseInt10_def S_def [symmetric] Z_def Let_def)
      have Z: "Z \<noteq> [] \<and> 0 < mathInt Z \<and> idn = to_number (mathInt Z)"
      proof (cases "Z = []")
        case True
        with p assms show ?thesis by (simp add: parseIdHook_of_NaN)
      next
        case False
        with p have "parseInt10 raw = to_number (mathInt Z)" by simp
        from parseIdHook_of_value [OF this] assms False show ?thesis
          by (auto split: if_splits)
      qed
      have "raw = ws @ js ''+'' @ Z @ dropWhile isDigit cs"
        using raw Cons plus by (simp add: Z_def js_def)
      then show ?thesis
        using ws Z dropWhile_head [of isDigit cs] list_all_takeWhile [of isDigit cs]
        unfolding Z_def by blast
    next
      case minus
      define Z where "Z = takeWhile isDigit cs"
      have p: "parseInt10 raw = (if Z = [] then NaN else to_number (- mathInt Z))"
        using Cons minus by (simp add: parseInt10_def S_def [symmetric] Z_def Let_def)
      have nonneg: "0 \<le> mathInt Z"
        unfolding Z_def by (rule mathInt_nonneg) (rule list_all_takeWhile)
      show ?thesis
      proof (cases "Z = []")
        case True
        with p assms show ?thesis by (simp add: parseIdHook_of_NaN)
      next
        case False
        with p have "parseInt10 raw = to_number (- mathInt Z)" by simp
        from parseIdHook_of_value [OF this] assms nonneg show ?thesis
          by (auto split: if_splits)
      qed
    next
      case none
      define Z where "Z = takeWhile isDigit S"
      have p: "parseInt10 raw = (if Z = [] then NaN else to_number (mathInt Z))"
        using Cons none by (simp add: parseInt10_def S_def [symmetric] Z_def Let_def)
      have Z: "Z \<noteq> [] \<and> 0 < mathInt Z \<and> idn = to_number (mathInt Z)"
      proof (cases "Z = []")
        case True
        with p assms show ?thesis by (simp add: parseIdHook_of_NaN)
      next
        case False
        with p have "parseInt10 raw = to_number (mathInt Z)" by simp
        from parseIdHook_of_value [OF this] assms False show ?thesis
          by (auto split: if_splits)
      qed
      have "raw = ws @ [] @ Z @ dropWhile isDigit S"
        using raw by (simp add: Z_def)
      then show ?thesis
        using ws Z dropWhile_head [of isDigit S] list_all_takeWhile [of isDigit S]
        unfolding Z_def by blast
    qed
  qed
qed

text \<open>The unfoldings that evaluate the hook and the handlers on a concrete request.\<close>

lemmas parse_eval =
  parseIdHook_def parseInt10_def js_def isWhiteSpace_def isDigit_def mathInt_def Let_def
  to_number_def round_double_def round53_def compute_floorlog

lemmas handler_eval =
  get_todo_route_def get_todo_handler_def select_by_id_def where_id.simps initial_db_def
  notFound_def internalServerError_def httpErrors_def put_todo_route_def put_todo_handler_def
  select_1_by_id_def update_returning_def updates_of_def delete_todo_route_def
  delete_todo_handler_def delete_run_def post_todo_handler_def insert_returning_def
  last_rowid_def serialize_def one_todo_def two_todos_def big_todo_def full_todo_def
  maxParamLength_def


section \<open>The claims\<close>

subsection \<open>Validation of the path parameter\<close>

lemma parseIdHook_accepts_decimal:
  assumes "list_all isDigit ds" and "0 < mathInt ds"
  shows "parseIdHook ds = Inr (to_number (mathInt ds))"
proof -
  from assms(2) have "ds \<noteq> []"
    by (auto simp: mathInt_def)
  with assms show ?thesis
    using parseIdHook_accepts_form [of ds "[]" "[]" ds "[]"] by simp
qed

text \<open>
  C1, as amended. The router hands a raw id of at most 100 code units to the hook; a
  longer one matches no route and is answered 404 by the router. The hook accepts a raw
  id exactly when it has the form: white space (possibly none), then an optional \<open>+\<close>,
  then a non-empty run of decimal digits whose value is greater than zero, then
  anything that does not start with a digit. What follows the digits is ignored and
  there is no upper bound. The accepted id is the Number nearest to the value of the
  digit run: the value itself up to \<open>2 ^ 53\<close>, and for instance 9007199254740992 for
  \<open>"9007199254740993"\<close>. Every other string is answered with 400 and
  \<open>{error: "Invalid ID"}\<close>, and on each of the three routes with an \<open>:id\<close> parameter
  that reply is the whole result: no statement runs and the database is as before.
  \<open>"0"\<close>, \<open>"-1"\<close>, \<open>"abc"\<close> and \<open>""\<close> are rejected, \<open>"1"\<close> and \<open>"42"\<close> are accepted.
\<close>

theorem parseIdHook_validation:
  "(parseIdHook raw = Inr idn \<longleftrightarrow>
      (\<exists>ws sg ds rest. raw = ws @ sg @ ds @ rest \<and> list_all isWhiteSpace ws \<and>
         (sg = [] \<or> sg = js ''+'') \<and> ds \<noteq> [] \<and> list_all isDigit ds \<and>
         (case rest of [] \<Rightarrow> True | c # _ \<Rightarrow> \<not> isDigit c) \<and>
         0 < mathInt ds \<and> idn = to_number (mathInt ds)))
   \<and> (\<bar>v\<bar> \<le> 2 ^ 53 \<longrightarrow> to_number v = Num v)
   \<and> (length raw \<le> maxParamLength \<longrightarrow> parseIdHook raw = Inl r \<longrightarrow>
        r = \<lparr>statusCode = 400, body = ErrorObject ''Invalid ID''\<rparr> \<and>
        get_todo_route db raw = (r, db) \<and>
        put_todo_route col others db raw b = (r, db) \<and>
        delete_todo_route db raw = (r, db))
   \<and> (maxParamLength < length raw \<longrightarrow>
        get_todo_route db raw = (\<lparr>statusCode = 404, body = RouteNotFound\<rparr>, db) \<and>
        put_todo_route col others db raw b = (\<lparr>statusCode = 404, body = RouteNotFound\<rparr>, db) \<and>
        delete_todo_route db raw = (\<lparr>statusCode = 404, body = RouteNotFound\<rparr>, db))
   \<and> parseIdHook (js ''0'') = Inl \<lparr>statusCode = 400, body = ErrorObject ''Invalid ID''\<rparr>
   \<and> parseIdHook (js ''-1'') = Inl \<lparr>statusCode = 400, body = ErrorObject ''Invalid ID''\<rparr>
   \<and> parseIdHook (js ''abc'') = Inl \<lparr>statusCode = 400, body = ErrorObject ''Invalid ID''\<rparr>
   \<and> parseIdHook (js []) = Inl \<lparr>statusCode = 400, body = ErrorObject ''Invalid ID''\<rparr>
   \<and> parseIdHook (js ''1'') = Inr (Num 1)
   \<and> parseIdHook (js ''42'') = Inr (Num 42)
   \<and> parseIdHook (js ''9007199254740993'') = Inr (Num 9007199254740992)"
proof -
  have iff: "parseIdHook raw = Inr idn \<longleftrightarrow>
      (\<exists>ws sg ds rest. raw = ws @ sg @ ds @ rest \<and> list_all isWhiteSpace ws \<and>
         (sg = [] \<or> sg = js ''+'') \<and> ds \<noteq> [] \<and> list_all isDigit ds \<and>
         (case rest of [] \<Rightarrow> True | c # _ \<Rightarrow> \<not> isDigit c) \<and>
         0 < mathInt ds \<and> idn = to_number (mathInt ds))"
  proof
    assume "parseIdHook raw = Inr idn"
    then show "\<exists>ws sg ds rest. raw = ws @ sg @ ds @ rest \<and> list_all isWhiteSpace ws \<and>
         (sg = [] \<or> sg = js ''+'') \<and> ds \<noteq> [] \<and> list_all isDigit ds \<and>
         (case rest of [] \<Rightarrow> True | c # _ \<Rightarrow> \<not> isDigit c) \<and>
         0 < mathInt ds \<and> idn = to_number (mathInt ds)"
      by (rule parseIdHook_accepted_has_form)
  next
    assume "\<exists>ws sg ds rest. raw = ws @ sg @ ds @ rest \<and> list_all isWhiteSpace ws \<and>
         (sg = [] \<or> sg = js ''+'') \<and> ds \<noteq> [] \<and> list_all isDigit ds \<and>
         (case rest of [] \<Rightarrow> True | c # _ \<Rightarrow> \<not> isDigit c) \<and>
         0 < mathInt ds \<and> idn = to_number (mathInt ds)"
    then obtain ws sg ds rest where
      "raw = ws @ sg @ ds @ rest" "list_all isWhiteSpace ws" "sg = [] \<or> sg = js ''+''"
      "ds \<noteq> []" "list_all isDigit ds" "(case rest of [] \<Rightarrow> True | c # _ \<Rightarrow> \<not> isDigit c)"
      "0 < mathInt ds" "idn = to_number (mathInt ds)"
      by blast
    then show "parseIdHook raw = Inr idn"
      using parseIdHook_accepts_form [of raw ws sg ds rest] by simp
  qed
  have small: "\<bar>v\<bar> \<le> 2 ^ 53 \<longrightarrow> to_number v = Num v"
    by (simp add: to_number_small)
  have routes: "length raw \<le> maxParamLength \<longrightarrow> parseIdHook raw = Inl r \<longrightarrow>
        r = \<lparr>statusCode = 400, body = ErrorObject ''Invalid ID''\<rparr> \<and>
        get_todo_route db raw = (r, db) \<and>
        put_todo_route col others db raw b = (r, db) \<and>
        delete_todo_route db raw = (r, db)"
    by (auto simp: get_todo_route_def put_todo_route_def delete_todo_route_def
        dest: parseIdHook_rejects)
  have long: "maxParamLength < length raw \<longrightarrow>
        get_todo_route db raw = (\<lparr>statusCode = 404, body = RouteNotFound\<rparr>, db) \<and>
        put_todo_route col others db raw b = (\<lparr>statusCode = 404, body = RouteNotFound\<rparr>, db) \<and>
        delete_todo_route db raw = (\<lparr>statusCode = 404, body = RouteNotFound\<rparr>, db)"
    by (simp add: get_todo_route_def put_todo_route_def delete_todo_route_def)
  have examples:
    "parseIdHook (js ''0'') = Inl \<lparr>statusCode = 400, body = ErrorObject ''Invalid ID''\<rparr>"
    "parseIdHook (js ''-1'') = Inl \<lparr>statusCode = 400, body = ErrorObject ''Invalid ID''\<rparr>"
    "parseIdHook (js ''abc'') = Inl \<lparr>statusCode = 400, body = ErrorObject ''Invalid ID''\<rparr>"
    "parseIdHook (js []) = Inl \<lparr>statusCode = 400, body = ErrorObject ''Invalid ID''\<rparr>"
    "parseIdHook (js ''1'') = Inr (Num 1)"
    "parseIdHook (js ''42'') = Inr (Num 42)"
    "parseIdHook (js ''9007199254740993'') = Inr (Num 9007199254740992)"
    by (simp_all add: parse_eval)
  show ?thesis
    by (intro conjI iff small routes long examples)
qed

theorem parseIdHook_validation_witness:
  "parseIdHook (js '' +42abc'') = Inr (Num 42)
   \<and> to_number 9007199254740992 = Num 9007199254740992
   \<and> parseIdHook (js ''abc'') = Inl \<lparr>statusCode = 400, body = ErrorObject ''Invalid ID''\<rparr>
   \<and> get_todo_route one_todo (js ''abc'') =
       (\<lparr>statusCode = 400, body = ErrorObject ''Invalid ID''\<rparr>, one_todo)
   \<and> put_todo_route (\<lambda>t. t) (\<lambda>d. d) one_todo (js ''abc'') \<lparr>title_opt = None, completed_opt = Some True\<rparr> =
       (\<lparr>statusCode = 400, body = ErrorObject ''Invalid ID''\<rparr>, one_todo)
   \<and> delete_todo_route one_todo (js ''abc'') =
       (\<lparr>statusCode = 400, body = ErrorObject ''Invalid ID''\<rparr>, one_todo)
   \<and> get_todo_route one_todo (replicate 101 0x31) =
       (\<lparr>statusCode = 404, body = RouteNotFound\<rparr>, one_todo)"
proof -
  have form: "\<exists>ws sg ds rest. js '' +42abc'' = ws @ sg @ ds @ rest \<and> list_all isWhiteSpace ws \<and>
         (sg = [] \<or> sg = js ''+'') \<and> ds \<noteq> [] \<and> list_all isDigit ds \<and>
         (case rest of [] \<Rightarrow> True | c # _ \<Rightarrow> \<not> isDigit c) \<and>
         0 < mathInt ds \<and> Num 42 = to_number (mathInt ds)"
    by (rule exI [of _ "js '' ''"], rule exI [of _ "js ''+''"], rule exI [of _ "js ''42''"],
        rule exI [of _ "js ''abc''"])
       (simp add: parse_eval)
  have rejected:
    "parseIdHook (js ''abc'') = Inl \<lparr>statusCode = 400, body = ErrorObject ''Invalid ID''\<rparr>"
    by (simp add: parse_eval)
  have short: "length (js ''abc'') \<le> maxParamLength"
    by (simp add: js_def maxParamLength_def)
  have long: "maxParamLength < length (replicate 101 (0x31 :: code_unit))"
    by (simp add: maxParamLength_def)
  have bound: "\<bar>9007199254740992 :: int\<bar> \<le> 2 ^ 53"
    by simp
  note main = parseIdHook_validation
  have accepted: "parseIdHook (js '' +42abc'') = Inr (Num 42)"
    by (rule main [THEN conjunct1, THEN iffD2, OF form])
  have exact: "to_number 9007199254740992 = Num 9007199254740992"
    by (rule main [THEN conjunct2, THEN conjunct1, THEN mp, OF bound])
  have routes: "get_todo_route one_todo (js ''abc'') =
       (\<lparr>statusCode = 400, body = ErrorObject ''Invalid ID''\<rparr>, one_todo)
   \<and> put_todo_route (\<lambda>t. t) (\<lambda>d. d) one_todo (js ''abc'') \<lparr>title_opt = None, completed_opt = Some True\<rparr> =
       (\<lparr>statusCode = 400, body = ErrorObject ''Invalid ID''\<rparr>, one_todo)
   \<and> delete_todo_route one_todo (js ''abc'') =
       (\<lparr>statusCode = 400, body = ErrorObject ''Invalid ID''\<rparr>, one_todo)"
    by (rule main [THEN conjunct2, THEN conjunct2, THEN conjunct1, THEN mp, OF short,
          THEN mp, OF rejected, THEN conjunct2])
  have not_found: "get_todo_route one_todo (replicate 101 0x31) =
       (\<lparr>statusCode = 404, body = RouteNotFound\<rparr>, one_todo)"
    by (rule main [THEN conjunct2, THEN conjunct2, THEN conjunct2, THEN conjunct1, THEN mp,
          OF long, THEN conjunct1])
  from accepted exact rejected routes not_found show ?thesis by simp
qed

text \<open>
  C1 as it was stated fails at \<open>"1abc"\<close>: the string is not a base-10 integer, and the
  hook accepts it with the id 1. It fails for overflow too: the hook accepts the 21
  digits of \<open>10 ^ 20\<close>, a value beyond every 64-bit integer.
\<close>

theorem parseIdHook_accepts_trailing_text:
  "parseIdHook (js ''1abc'') = Inr (Num 1) \<and> \<not> spec_base10_integer (js ''1abc'')
   \<and> parseIdHook (js ''100000000000000000000'') = Inr (Num 100000000000000000000)
   \<and> (2::int) ^ 64 < 100000000000000000000"
  by (simp add: parse_eval spec_base10_integer_def)


subsection \<open>Reading one todo\<close>

text \<open>
  C2. \<open>GET /todos/{id}\<close> with a valid id answers 200 with the todo when a todo with
  that id exists, and is claimed to answer 404 with \<open>{error: "Todo not found"}\<close> when
  none exists. The code answers the first case as claimed. In the second it evaluates
  \<open>fastify.httpErrors.notFound\<close>, which throws a \<open>TypeError\<close>, and the reply is 500:
  here for the id 2 in a table that holds the todo 1 only.
\<close>

theorem get_todo_missing_replies_500:
  "get_todo_route one_todo (js ''2'') =
     (\<lparr>statusCode = 500, body = ErrorDocument TypeError\<rparr>, one_todo)
   \<and> get_todo_route one_todo (js ''1'') =
     (\<lparr>statusCode = 200,
       body = TodoObject \<lparr>todo_id = 1, todo_title = js ''Buy milk'', todo_completed = False\<rparr>\<rparr>,
      one_todo)"
  by (simp add: parse_eval handler_eval)


subsection \<open>Creating a todo\<close>

text \<open>
  C3, as amended. On a table whose largest id so far is below the last 64-bit integer,
  \<open>POST /todos\<close> with a body that has a string \<open>title\<close> appends exactly one row to the
  table and answers 201 with the created todo: its \<open>completed\<close> is false whatever else
  the body holds, its \<open>title\<close> is the title as the table keeps it, and its \<open>id\<close> is the
  Number nearest to the id that the storage assigned to the new row, an id that no row
  of the table had. The two are equal when the assigned id is at most \<open>2 ^ 53\<close> in
  absolute value. On a table that has held the last 64-bit id the insert fails: the
  reply is 500 and no row is inserted.
\<close>

theorem post_todo_created:
  "(last_rowid db < 2 ^ 63 - 1 \<longrightarrow>
      (\<exists>new. post_todo_handler col db b =
            (\<lparr>statusCode = 201,
              body = TodoObject
                \<lparr>todo_id = round_double (id_col new), todo_title = title_col new,
                 todo_completed = False\<rparr>\<rparr>,
             \<lparr>todos = todos db @ [new], sqlite_sequence = id_col new\<rparr>)
         \<and> new = \<lparr>id_col = last_rowid db + 1, title_col = col (title b),
                  completed_col = 0\<rparr>
         \<and> id_col new \<notin> id_col ` set (todos db)
         \<and> (\<bar>id_col new\<bar> \<le> 2 ^ 53 \<longrightarrow> round_double (id_col new) = id_col new)))
   \<and> (2 ^ 63 - 1 \<le> last_rowid db \<longrightarrow>
        post_todo_handler col db b = (\<lparr>statusCode = 500, body = ErrorDocument SQLiteError\<rparr>, db))"
proof -
  have fresh: "last_rowid db + 1 \<notin> id_col ` set (todos db)"
    using last_rowid_ge [of _ db] by force
  have ok: "last_rowid db < 2 ^ 63 - 1 \<longrightarrow>
      (\<exists>new. post_todo_handler col db b =
            (\<lparr>statusCode = 201,
              body = TodoObject
                \<lparr>todo_id = round_double (id_col new), todo_title = title_col new,
                 todo_completed = False\<rparr>\<rparr>,
             \<lparr>todos = todos db @ [new], sqlite_sequence = id_col new\<rparr>)
         \<and> new = \<lparr>id_col = last_rowid db + 1, title_col = col (title b),
                  completed_col = 0\<rparr>
         \<and> id_col new \<notin> id_col ` set (todos db)
         \<and> (\<bar>id_col new\<bar> \<le> 2 ^ 53 \<longrightarrow> round_double (id_col new) = id_col new))"
    using fresh by (simp add: post_todo_handler_eq round_double_small)
  have full: "2 ^ 63 - 1 \<le> last_rowid db \<longrightarrow>
        post_todo_handler col db b = (\<lparr>statusCode = 500, body = ErrorDocument SQLiteError\<rparr>, db)"
    by (simp add: post_todo_handler_full)
  from ok full show ?thesis by (rule conjI)
qed

theorem post_todo_created_witness:
  "last_rowid one_todo < 2 ^ 63 - 1
   \<and> post_todo_handler (\<lambda>t. t) one_todo
     \<lparr>title = js ''Walk'', additional = [(''completed'', JBool True), (''id'', JNumber 7)]\<rparr> =
   (\<lparr>statusCode = 201,
     body = TodoObject \<lparr>todo_id = 2, todo_title = js ''Walk'', todo_completed = False\<rparr>\<rparr>,
    \<lparr>todos = [\<lparr>id_col = 1, title_col = js ''Buy milk'', completed_col = 0\<rparr>,
              \<lparr>id_col = 2, title_col = js ''Walk'', completed_col = 0\<rparr>],
     sqlite_sequence = 2\<rparr>)
   \<and> 2 ^ 63 - 1 \<le> last_rowid full_todo
   \<and> post_todo_handler (\<lambda>t. t) full_todo \<lparr>title = js ''Walk'', additional = []\<rparr> =
       (\<lparr>statusCode = 500, body = ErrorDocument SQLiteError\<rparr>, full_todo)"
proof -
  have room: "last_rowid one_todo < 2 ^ 63 - 1"
    and last: "last_rowid one_todo = 1"
    and rows: "todos one_todo = [\<lparr>id_col = 1, title_col = js ''Buy milk'', completed_col = 0\<rparr>]"
    by (simp_all add: last_rowid_def one_todo_def)
  have full: "2 ^ 63 - 1 \<le> last_rowid full_todo"
    by (simp add: last_rowid_def full_todo_def)
  note main = post_todo_created
  from main [where col = "\<lambda>t. t" and b =
      "\<lparr>title = js ''Walk'', additional = [(''completed'', JBool True), (''id'', JNumber 7)]\<rparr>",
      THEN conjunct1, THEN mp, OF room]
  have "post_todo_handler (\<lambda>t. t) one_todo
     \<lparr>title = js ''Walk'', additional = [(''completed'', JBool True), (''id'', JNumber 7)]\<rparr> =
   (\<lparr>statusCode = 201,
     body = TodoObject \<lparr>todo_id = 2, todo_title = js ''Walk'', todo_completed = False\<rparr>\<rparr>,
    \<lparr>todos = [\<lparr>id_col = 1, title_col = js ''Buy milk'', completed_col = 0\<rparr>,
              \<lparr>id_col = 2, title_col = js ''Walk'', completed_col = 0\<rparr>],
     sqlite_sequence = 2\<rparr>)"
    by (auto simp: last rows round_double_small)
  moreover note main [where col = "\<lambda>t. t"
      and b = "\<lparr>title = js ''Walk'', additional = []\<rparr>", THEN conjunct2, THEN mp, OF full]
  ultimately show ?thesis using room full by simp
qed

text \<open>
  C3 as it was stated fails on a table that holds the last 64-bit id: the insert
  fails, the reply is 500 and the table is as before. It fails for the id on a table
  whose largest id is \<open>2 ^ 53\<close>: the new row gets the id \<open>2 ^ 53 + 1\<close> and the reply
  carries the id \<open>2 ^ 53\<close>.
\<close>

theorem post_todo_fails_on_full_table:
  "post_todo_handler (\<lambda>t. t) full_todo \<lparr>title = js ''Walk'', additional = []\<rparr> =
     (\<lparr>statusCode = 500, body = ErrorDocument SQLiteError\<rparr>, full_todo)
   \<and> post_todo_handler (\<lambda>t. t) big_todo \<lparr>title = js ''Walk'', additional = []\<rparr> =
     (\<lparr>statusCode = 201,
       body = TodoObject
         \<lparr>todo_id = 9007199254740992, todo_title = js ''Walk'', todo_completed = False\<rparr>\<rparr>,
      \<lparr>todos = [\<lparr>id_col = 9007199254740992, title_col = js ''Big'', completed_col = 0\<rparr>,
                \<lparr>id_col = 9007199254740993, title_col = js ''Walk'', completed_col = 0\<rparr>],
       sqlite_sequence = 9007199254740993\<rparr>)"
  by (simp add: parse_eval handler_eval)


subsection \<open>Updating a todo\<close>

text \<open>
  C4. For a todo that exists, \<open>PUT\<close> changes the supplied fields only. With
  \<open>completed\<close> alone the reply and the stored row keep the title and the id; with
  \<open>title\<close> alone they keep \<open>completed\<close> and the id; with neither field the reply is
  200 with the record as it is, id included, and the database is unchanged. The id of
  the reply is the Number of the row id \<open>k\<close>; that is \<open>k\<close> itself for every \<open>k\<close> that is
  a Number, as every id that the hook hands on is, and for every \<open>k\<close> up to \<open>2 ^ 53\<close>.
  A new title is the title as the table keeps it.
\<close>

theorem put_todo_partial:
  assumes "select_by_id db (Num k) = Some r"
  shows "(\<exists>db'. put_todo_handler col (\<lambda>d. d) db (Num k) \<lparr>title_opt = None, completed_opt = Some c\<rparr> =
            (\<lparr>statusCode = 200,
              body = TodoObject
                \<lparr>todo_id = round_double k, todo_title = title_col r, todo_completed = c\<rparr>\<rparr>, db')
          \<and> select_by_id db' (Num k) = Some (r\<lparr>completed_col := (if c then 1 else 0)\<rparr>))
       \<and> (\<exists>db'. put_todo_handler col (\<lambda>d. d) db (Num k) \<lparr>title_opt = Some t, completed_opt = None\<rparr> =
            (\<lparr>statusCode = 200,
              body = TodoObject
                \<lparr>todo_id = round_double k, todo_title = col t,
                 todo_completed = (completed_col r \<noteq> 0)\<rparr>\<rparr>, db')
          \<and> select_by_id db' (Num k) = Some (r\<lparr>title_col := col t\<rparr>))
       \<and> put_todo_handler col (\<lambda>d. d) db (Num k) \<lparr>title_opt = None, completed_opt = None\<rparr> =
            (\<lparr>statusCode = 200,
              body = TodoObject
                \<lparr>todo_id = round_double k, todo_title = title_col r,
                 todo_completed = (completed_col r \<noteq> 0)\<rparr>\<rparr>, db)
       \<and> id_col r = k
       \<and> (to_number v = Num k \<longrightarrow> round_double k = k)
       \<and> (\<bar>k\<bar> \<le> 2 ^ 53 \<longrightarrow> round_double k = k)"
proof -
  from assms have f: "find (where_id (Num k)) (todos db) = Some r"
    by (simp add: select_by_id_def)
  then have k: "id_col r = k"
    by (simp add: find_where_id)
  have 1: "\<exists>db'. put_todo_handler col (\<lambda>d. d) db (Num k) \<lparr>title_opt = None, completed_opt = Some c\<rparr> =
            (\<lparr>statusCode = 200,
              body = TodoObject
                \<lparr>todo_id = round_double k, todo_title = title_col r, todo_completed = c\<rparr>\<rparr>, db')
          \<and> select_by_id db' (Num k) = Some (r\<lparr>completed_col := (if c then 1 else 0)\<rparr>)"
    using f k
    by (simp add: put_todo_handler_update updates_of_def serialize_def select_by_id_def
        find_update)
  have 2: "\<exists>db'. put_todo_handler col (\<lambda>d. d) db (Num k) \<lparr>title_opt = Some t, completed_opt = None\<rparr> =
            (\<lparr>statusCode = 200,
              body = TodoObject
                \<lparr>todo_id = round_double k, todo_title = col t,
                 todo_completed = (completed_col r \<noteq> 0)\<rparr>\<rparr>, db')
          \<and> select_by_id db' (Num k) = Some (r\<lparr>title_col := col t\<rparr>)"
    using f k
    by (simp add: put_todo_handler_update updates_of_def serialize_def select_by_id_def
        find_update)
  have 3: "put_todo_handler col (\<lambda>d. d) db (Num k) \<lparr>title_opt = None, completed_opt = None\<rparr> =
            (\<lparr>statusCode = 200,
              body = TodoObject
                \<lparr>todo_id = round_double k, todo_title = title_col r,
                 todo_completed = (completed_col r \<noteq> 0)\<rparr>\<rparr>, db)"
    using f k by (simp add: put_todo_handler_noop updates_of_def serialize_def)
  have 4: "to_number v = Num k \<longrightarrow> round_double k = k"
    by (simp add: to_number_Num)
  have 5: "\<bar>k\<bar> \<le> 2 ^ 53 \<longrightarrow> round_double k = k"
    by (simp add: round_double_small)
  from 1 2 3 k 4 5 show ?thesis by (intro conjI)
qed

theorem put_todo_partial_witness:
  "select_by_id one_todo (Num 1) =
     Some \<lparr>id_col = 1, title_col = js ''Buy milk'', completed_col = 0\<rparr>
   \<and> fst (put_todo_handler (\<lambda>t. t) (\<lambda>d. d) one_todo (Num 1) \<lparr>title_opt = None, completed_opt = Some True\<rparr>) =
       \<lparr>statusCode = 200,
        body = TodoObject \<lparr>todo_id = 1, todo_title = js ''Buy milk'', todo_completed = True\<rparr>\<rparr>
   \<and> fst (put_todo_handler (\<lambda>t. t) (\<lambda>d. d) one_todo (Num 1)
           \<lparr>title_opt = Some (js ''Tea''), completed_opt = None\<rparr>) =
       \<lparr>statusCode = 200,
        body = TodoObject \<lparr>todo_id = 1, todo_title = js ''Tea'', todo_completed = False\<rparr>\<rparr>
   \<and> put_todo_handler (\<lambda>t. t) (\<lambda>d. d) one_todo (Num 1) \<lparr>title_opt = None, completed_opt = None\<rparr> =
       (\<lparr>statusCode = 200,
         body = TodoObject \<lparr>todo_id = 1, todo_title = js ''Buy milk'', todo_completed = False\<rparr>\<rparr>,
        one_todo)
   \<and> to_number 1 = Num 1
   \<and> round_double 1 = 1"
proof -
  have sel: "select_by_id one_todo (Num 1) =
      Some \<lparr>id_col = 1, title_col = js ''Buy milk'', completed_col = 0\<rparr>"
    by (simp add: select_by_id_def where_id.simps one_todo_def)
  have one: "round_double 1 = 1" and num: "to_number 1 = Num 1"
    by (simp_all add: round_double_small to_number_small)
  from put_todo_partial [OF sel, where col = "\<lambda>t. t" and c = True and t = "js ''Tea''"
      and v = 1] sel
  show ?thesis
    by (auto simp: one num)
qed

text \<open>
  C5. \<open>PUT /todos/{id}\<close> with a valid id is claimed to answer 404 when no todo has
  the id at the existence check, 500 when the check succeeds and the update statement
  then returns no row, and 200 with the updated record otherwise. The code answers 200
  as claimed. In the two other cases it evaluates \<open>fastify.httpErrors\<close>, which throws a
  \<open>TypeError\<close>, so the reply is 500 in both: here for the id 2 in a table that holds
  the todo 1 only, and for the id 1 when another writer empties the table after the
  check.
\<close>

theorem put_todo_missing_replies_500:
  "put_todo_route (\<lambda>t. t) (\<lambda>d. d) one_todo (js ''2'') \<lparr>title_opt = None, completed_opt = Some True\<rparr> =
     (\<lparr>statusCode = 500, body = ErrorDocument TypeError\<rparr>, one_todo)
   \<and> put_todo_route (\<lambda>t. t) (\<lambda>d. d\<lparr>todos := []\<rparr>) one_todo (js ''1'')
       \<lparr>title_opt = None, completed_opt = Some True\<rparr> =
     (\<lparr>statusCode = 500, body = ErrorDocument TypeError\<rparr>, one_todo\<lparr>todos := []\<rparr>)
   \<and> put_todo_route (\<lambda>t. t) (\<lambda>d. d) one_todo (js ''1'') \<lparr>title_opt = None, completed_opt = Some True\<rparr> =
     (\<lparr>statusCode = 200,
       body = TodoObject \<lparr>todo_id = 1, todo_title = js ''Buy milk'', todo_completed = True\<rparr>\<rparr>,
      \<lparr>todos = [\<lparr>id_col = 1, title_col = js ''Buy milk'', completed_col = 1\<rparr>],
       sqlite_sequence = 1\<rparr>)"
  by (simp add: parse_eval handler_eval)


subsection \<open>Deleting a todo\<close>

text \<open>
  C6. \<open>DELETE /todos/{id}\<close> with a valid id answers 204 with an empty body when the
  statement removed a row, and is claimed to answer 404 with
  \<open>{error: "Todo not found"}\<close> when it removed none, so that deleting an id twice gives
  204 and then 404. The handler does decide by the count of removed rows. For a count
  of zero it evaluates \<open>fastify.httpErrors.notFound\<close>, which throws a \<open>TypeError\<close>, and
  the reply is 500: deleting the todo 1 twice gives 204 and then 500.
\<close>

theorem delete_todo_twice_replies_500:
  "delete_todo_route one_todo (js ''1'') =
     (\<lparr>statusCode = 204, body = Empty\<rparr>, one_todo\<lparr>todos := []\<rparr>)
   \<and> delete_todo_route (one_todo\<lparr>todos := []\<rparr>) (js ''1'') =
     (\<lparr>statusCode = 500, body = ErrorDocument TypeError\<rparr>, one_todo\<lparr>todos := []\<rparr>)"
  by (simp add: parse_eval handler_eval)


subsection \<open>Create, then read\<close>

text \<open>
  C7, as amended. When the insert succeeds and the id that the storage assigns to the
  new row is itself a Number, so that the reply of \<open>POST /todos\<close> carries it exactly,
  reading the id of the created todo from the resulting table answers 200 with the
  same todo. Every id of at most \<open>2 ^ 53\<close> in absolute value is such an id.
\<close>

theorem create_then_get:
  "(last_rowid db < 2 ^ 63 - 1 \<and> round_double (last_rowid db + 1) = last_rowid db + 1 \<longrightarrow>
      (\<exists>t db'. post_todo_handler col db b = (\<lparr>statusCode = 201, body = TodoObject t\<rparr>, db')
          \<and> get_todo_handler db' (Num (todo_id t)) =
              (\<lparr>statusCode = 200, body = TodoObject t\<rparr>, db')))
   \<and> (\<bar>last_rowid db + 1\<bar> \<le> 2 ^ 53 \<longrightarrow>
        last_rowid db < 2 ^ 63 - 1 \<and> round_double (last_rowid db + 1) = last_rowid db + 1)"
proof -
  have later: "find (where_id (Num (last_rowid db + 1))) (todos db) = None"
    by (rule later_rowid_not_found) simp
  have trip: "last_rowid db < 2 ^ 63 - 1 \<and>
      round_double (last_rowid db + 1) = last_rowid db + 1 \<longrightarrow>
      (\<exists>t db'. post_todo_handler col db b = (\<lparr>statusCode = 201, body = TodoObject t\<rparr>, db')
          \<and> get_todo_handler db' (Num (todo_id t)) =
              (\<lparr>statusCode = 200, body = TodoObject t\<rparr>, db'))"
    by (simp add: post_todo_handler_eq get_todo_handler_eq find_snoc later serialize_def
        where_id.simps)
  have "(2::int) ^ 53 < 2 ^ 63 - 1" by simp
  then have small: "\<bar>last_rowid db + 1\<bar> \<le> 2 ^ 53 \<longrightarrow>
        last_rowid db < 2 ^ 63 - 1 \<and> round_double (last_rowid db + 1) = last_rowid db + 1"
    using round_double_small [of "last_rowid db + 1"] by auto
  from trip small show ?thesis by (rule conjI)
qed

theorem create_then_get_witness:
  "\<bar>last_rowid one_todo + 1\<bar> \<le> 2 ^ 53
   \<and> fst (post_todo_handler (\<lambda>t. t) one_todo \<lparr>title = js ''Walk'', additional = []\<rparr>) =
     \<lparr>statusCode = 201,
      body = TodoObject \<lparr>todo_id = 2, todo_title = js ''Walk'', todo_completed = False\<rparr>\<rparr>
   \<and> fst (get_todo_handler
            (snd (post_todo_handler (\<lambda>t. t) one_todo \<lparr>title = js ''Walk'', additional = []\<rparr>)) (Num 2)) =
     \<lparr>statusCode = 200,
      body = TodoObject \<lparr>todo_id = 2, todo_title = js ''Walk'', todo_completed = False\<rparr>\<rparr>"
proof -
  have small: "\<bar>last_rowid one_todo + 1\<bar> \<le> 2 ^ 53"
    by (simp add: last_rowid_def one_todo_def)
  have post: "post_todo_handler (\<lambda>t. t) one_todo \<lparr>title = js ''Walk'', additional = []\<rparr> =
      (\<lparr>statusCode = 201,
        body = TodoObject \<lparr>todo_id = 2, todo_title = js ''Walk'', todo_completed = False\<rparr>\<rparr>,
       \<lparr>todos = [\<lparr>id_col = 1, title_col = js ''Buy milk'', completed_col = 0\<rparr>,
                 \<lparr>id_col = 2, title_col = js ''Walk'', completed_col = 0\<rparr>],
        sqlite_sequence = 2\<rparr>)"
    by (simp add: parse_eval handler_eval)
  note main = create_then_get
  note cond = main [THEN conjunct2, THEN mp, OF small]
  from main [where col = "\<lambda>t. t"
      and b = "\<lparr>title = js ''Walk'', additional = []\<rparr>", THEN conjunct1, THEN mp, OF cond]
    small
  show ?thesis
    unfolding post by auto
qed

text \<open>
  C7 as it was stated fails on a table whose largest id is \<open>2 ^ 53\<close>: the new row gets
  the id \<open>2 ^ 53 + 1\<close>, the reply of \<open>POST\<close> carries the id \<open>2 ^ 53\<close>, and reading that id
  answers with the other todo.
\<close>

theorem create_then_get_reads_other_row:
  "fst (post_todo_handler (\<lambda>t. t) big_todo \<lparr>title = js ''Walk'', additional = []\<rparr>) =
     \<lparr>statusCode = 201,
      body = TodoObject
        \<lparr>todo_id = 9007199254740992, todo_title = js ''Walk'', todo_completed = False\<rparr>\<rparr>
   \<and> fst (get_todo_handler
            (snd (post_todo_handler (\<lambda>t. t) big_todo \<lparr>title = js ''Walk'', additional = []\<rparr>))
            (Num 9007199254740992)) =
     \<lparr>statusCode = 200,
      body = TodoObject
        \<lparr>todo_id = 9007199254740992, todo_title = js ''Big'', todo_completed = False\<rparr>\<rparr>"
  by (simp add: parse_eval handler_eval)


subsection \<open>The other rows\<close>

text \<open>
  C8. The rows whose id is not \<open>k\<close> are the same rows, in the same order, before and
  after \<open>PUT\<close> on \<open>k\<close> and before and after \<open>DELETE\<close> on \<open>k\<close>; and the rows that the
  table held before \<open>POST\<close> are the first rows of the table after it, unchanged.
\<close>

theorem other_rows_unchanged:
  "filter (\<lambda>r. id_col r \<noteq> k) (todos (snd (put_todo_handler col (\<lambda>d. d) db (Num k) b))) =
     filter (\<lambda>r. id_col r \<noteq> k) (todos db)
   \<and> filter (\<lambda>r. id_col r \<noteq> k) (todos (snd (delete_todo_handler db (Num k)))) =
     filter (\<lambda>r. id_col r \<noteq> k) (todos db)
   \<and> take (length (todos db)) (todos (snd (post_todo_handler col db cb))) = todos db"
  using filter_update_other [where idn = "Num k" and col = col and updates = "updates_of b"
      and rows = "todos db"]
  by (simp add: todos_put_todo_handler delete_todo_handler_eq post_todo_handler_todos
      where_id.simps)

theorem other_rows_unchanged_witness:
  "filter (\<lambda>r. id_col r \<noteq> 1)
     (todos (snd (put_todo_handler (\<lambda>t. t) (\<lambda>d. d) two_todos (Num 1)
        \<lparr>title_opt = Some (js ''Tea''), completed_opt = Some True\<rparr>))) =
     [\<lparr>id_col = 2, title_col = js ''Walk'', completed_col = 1\<rparr>]
   \<and> filter (\<lambda>r. id_col r \<noteq> 1) (todos (snd (delete_todo_handler two_todos (Num 1)))) =
     [\<lparr>id_col = 2, title_col = js ''Walk'', completed_col = 1\<rparr>]
   \<and> take 2 (todos (snd (post_todo_handler (\<lambda>t. t) two_todos \<lparr>title = js ''Tea'', additional = []\<rparr>))) =
     todos two_todos"
proof -
  have rows: "filter (\<lambda>r. id_col r \<noteq> 1) (todos two_todos) =
      [\<lparr>id_col = 2, title_col = js ''Walk'', completed_col = 1\<rparr>]"
    and len: "length (todos two_todos) = 2"
    by (simp_all add: two_todos_def)
  from other_rows_unchanged [where k = 1 and col = "\<lambda>t. t" and db = two_todos
      and b = "\<lparr>title_opt = Some (js ''Tea''), completed_opt = Some True\<rparr>"
      and cb = "\<lparr>title = js ''Tea'', additional = []\<rparr>"]
  show ?thesis
    unfolding rows len by simp
qed


subsection \<open>The column \<open>completed\<close>\<close>

text \<open>
  C9. In every state of the table that the server reaches from a new database file,
  the column \<open>completed\<close> of every row is 0 or 1. The insert statement, when it
  succeeds, appends a row with 0, and an update with \<open>completed\<close> supplied writes 1 for
  true and 0 for false. (The default 0 of the column is never used: the insert
  statement names the column.)
\<close>

theorem reachable_completed_0_or_1:
  "(reachable col db \<longrightarrow> (\<forall>r \<in> set (todos db). completed_col r = 0 \<or> completed_col r = 1))
   \<and> (insert_returning col db' t = Inr (new, d) \<longrightarrow>
        completed_col new = 0 \<and> todos d = todos db' @ [new])
   \<and> (select_by_id db'' (Num k) \<noteq> None \<longrightarrow>
        map_option completed_col
          (select_by_id
             (snd (put_todo_handler col (\<lambda>d. d) db'' (Num k)
                \<lparr>title_opt = topt, completed_opt = Some c\<rparr>)) (Num k)) =
        Some (if c then 1 else 0))"
proof -
  have inv: "completed_is_0_or_1 db" if "reachable col db"
    using that
  proof (induction rule: reachable.induct)
    case reachable_initial
    show ?case by (simp add: completed_is_0_or_1_def initial_db_def)
  next
    case (reachable_serve db req)
    then show ?case by (simp add: serve_preserves_completed)
  qed
  have 1: "reachable col db \<longrightarrow> (\<forall>r \<in> set (todos db). completed_col r = 0 \<or> completed_col r = 1)"
    using inv by (simp add: completed_is_0_or_1_def list_all_iff)
  have 2: "insert_returning col db' t = Inr (new, d) \<longrightarrow>
        completed_col new = 0 \<and> todos d = todos db' @ [new]"
    by (auto simp: insert_returning_def Let_def split: if_splits)
  have 3: "select_by_id db'' (Num k) \<noteq> None \<longrightarrow>
        map_option completed_col
          (select_by_id
             (snd (put_todo_handler col (\<lambda>d. d) db'' (Num k)
                \<lparr>title_opt = topt, completed_opt = Some c\<rparr>)) (Num k)) =
        Some (if c then 1 else 0)"
    by (cases topt)
       (auto simp: select_by_id_def todos_put_todo_handler find_update updates_of_def)
  from 1 2 3 show ?thesis by (intro conjI)
qed

theorem reachable_completed_0_or_1_witness:
  "reachable (\<lambda>t. t) (snd (serve (\<lambda>t. t) (snd (serve (\<lambda>t. t) initial_db
       (PostTodo \<lparr>title = js ''Buy milk'', additional = []\<rparr>)))
       (PutTodo (js ''1'') \<lparr>title_opt = None, completed_opt = Some True\<rparr>)))
   \<and> todos (snd (serve (\<lambda>t. t) (snd (serve (\<lambda>t. t) initial_db
       (PostTodo \<lparr>title = js ''Buy milk'', additional = []\<rparr>)))
       (PutTodo (js ''1'') \<lparr>title_opt = None, completed_opt = Some True\<rparr>))) =
     [\<lparr>id_col = 1, title_col = js ''Buy milk'', completed_col = 1\<rparr>]
   \<and> (completed_col \<lparr>id_col = 1, title_col = js ''Buy milk'', completed_col = 1\<rparr> = 0
      \<or> completed_col \<lparr>id_col = 1, title_col = js ''Buy milk'', completed_col = 1\<rparr> = 1)
   \<and> insert_returning (\<lambda>t. t) initial_db (js ''Buy milk'') =
       Inr (\<lparr>id_col = 1, title_col = js ''Buy milk'', completed_col = 0\<rparr>, one_todo)
   \<and> todos one_todo = todos initial_db @
       [\<lparr>id_col = 1, title_col = js ''Buy milk'', completed_col = 0\<rparr>]
   \<and> select_by_id one_todo (Num 1) \<noteq> None
   \<and> map_option completed_col
        (select_by_id
           (snd (put_todo_handler (\<lambda>t. t) (\<lambda>d. d) one_todo (Num 1)
              \<lparr>title_opt = None, completed_opt = Some False\<rparr>)) (Num 1)) = Some 0"
proof -
  let ?db = "snd (serve (\<lambda>t. t) (snd (serve (\<lambda>t. t) initial_db
       (PostTodo \<lparr>title = js ''Buy milk'', additional = []\<rparr>)))
       (PutTodo (js ''1'') \<lparr>title_opt = None, completed_opt = Some True\<rparr>))"
  let ?r = "\<lparr>id_col = 1, title_col = js ''Buy milk'', completed_col = 1\<rparr>"
  note main = reachable_completed_0_or_1
  have reach: "reachable (\<lambda>t. t) ?db"
    by (intro reachable_serve reachable_initial)
  have rows: "todos ?db = [?r]"
    by (simp add: parse_eval handler_eval)
  then have mem: "?r \<in> set (todos ?db)"
    by simp
  from main [THEN conjunct1, THEN mp, OF reach, THEN bspec, OF mem]
  have zero_one: "completed_col ?r = 0 \<or> completed_col ?r = 1" .
  have ins: "insert_returning (\<lambda>t. t) initial_db (js ''Buy milk'') =
       Inr (\<lparr>id_col = 1, title_col = js ''Buy milk'', completed_col = 0\<rparr>, one_todo)"
    by (simp add: parse_eval handler_eval)
  from main [THEN conjunct2, THEN conjunct1, THEN mp, OF ins]
  have appended: "todos one_todo = todos initial_db @
       [\<lparr>id_col = 1, title_col = js ''Buy milk'', completed_col = 0\<rparr>]"
    by simp
  have sel: "select_by_id one_todo (Num 1) \<noteq> None"
    by (simp add: select_by_id_def where_id.simps one_todo_def)
  from main [where col = "\<lambda>t. t" and topt = None and c = False,
      THEN conjunct2, THEN conjunct2, THEN mp, OF sel]
  have written: "map_option completed_col
        (select_by_id
           (snd (put_todo_handler (\<lambda>t. t) (\<lambda>d. d) one_todo (Num 1)
              \<lparr>title_opt = None, completed_opt = Some False\<rparr>)) (Num 1)) = Some 0"
    by simp
  from reach rows zero_one ins appended sel written show ?thesis
    by (intro conjI)
qed


subsection \<open>What the created row depends on\<close>

text \<open>
  C10. The reply of \<open>POST /todos\<close> and the table after it depend on the \<open>title\<close> of
  the body and on the table before it, and on nothing else of the body: two bodies
  with the same \<open>title\<close> give the same reply and the same table.
\<close>

theorem post_todo_depends_on_title_only:
  "title b1 = title b2 \<Longrightarrow> post_todo_handler col db b1 = post_todo_handler col db b2"
  by (simp add: post_todo_handler_def)

theorem post_todo_depends_on_title_only_witness:
  "title \<lparr>title = js ''Walk'', additional = []\<rparr> =
     title \<lparr>title = js ''Walk'', additional = [(''completed'', JBool True), (''id'', JNumber 7)]\<rparr>
   \<and> post_todo_handler (\<lambda>t. t) one_todo \<lparr>title = js ''Walk'', additional = []\<rparr> =
     post_todo_handler (\<lambda>t. t) one_todo
       \<lparr>title = js ''Walk'', additional = [(''completed'', JBool True), (''id'', JNumber 7)]\<rparr>"
proof -
  have same: "title \<lparr>title = js ''Walk'', additional = []\<rparr> =
     title \<lparr>title = js ''Walk'', additional = [(''completed'', JBool True), (''id'', JNumber 7)]\<rparr>"
    by simp
  from same post_todo_depends_on_title_only [OF same, where col = "\<lambda>t. t" and db = one_todo]
  show ?thesis
    by (rule conjI)
qed

end
